theory Spec2Isabelle
  imports Main "HOL-Library.Monad_Syntax"
begin

section \<open>The output AST used by the NgModule compiler\<close>

text \<open>
  \<^verbatim>\<open>r3_module_compiler.ts\<close> builds its result from the expression builders of
  \<^verbatim>\<open>../output/output_ast\<close> (imported as \<^verbatim>\<open>o\<close>) and from the identifier table
  \<^verbatim>\<open>./r3_identifiers\<close> (imported as \<^verbatim>\<open>R3\<close>). Neither file is among the sources; only
  the constructors the compiler calls are modelled, as datatypes whose constructors carry
  the names of the AST classes.
\<close>

text \<open>
  Modelled from the spec: the identifier table \<^verbatim>\<open>R3\<close> (file \<^verbatim>\<open>r3_identifiers\<close>) is
  missing; the four well-known runtime symbols the compiler looks up are the values of an
  enumeration.
\<close>

datatype Identifiers =
    defineNgModule
  | setNgModuleScope
  | registerNgModuleType
  | NgModuleDeclaration

text \<open>
  Modelled from the spec: the output AST (file \<^verbatim>\<open>output_ast\<close>) is missing. \<open>'n\<close> is the
  type of the opaque nodes that \<^verbatim>\<open>WrappedNodeExpr\<close> wraps. The third argument of
  \<open>InvokeFunctionExpr\<close> is the \<^verbatim>\<open>pure\<close> flag, the second argument of \<open>ExternalExpr\<close> and of
  \<open>ExpressionType\<close> the optional type parameters (\<^verbatim>\<open>null\<close> is \<open>None\<close>). \<open>NONE_TYPE\<close> is the
  built-in type \<^verbatim>\<open>o.NONE_TYPE\<close>. Of the binary operators only the short-circuit
  conjunction \<^verbatim>\<open>&&\<close> is needed.
\<close>

datatype BinaryOperator = And

datatype 'n Expression =
    WrappedNodeExpr 'n
  | ReadVarExpr string
  | ExternalExpr Identifiers "'n Type list option"
  | InvokeFunctionExpr "'n Expression" "'n Expression list" bool
  | LiteralArrayExpr "'n Expression list"
  | LiteralMapExpr "(string \<times> 'n Expression) list"
  | FunctionExpr "string list" "'n Statement list"
  | BinaryOperatorExpr BinaryOperator "'n Expression" "'n Expression"
  | TypeofExpr "'n Expression"
and 'n Statement =
    ExpressionStatement "'n Expression"
  | ReturnStatement "'n Expression"
and 'n Type =
    ExpressionType "'n Expression" "'n Type list option"
  | NONE_TYPE

text \<open>\<^verbatim>\<open>o.importExpr(id)\<close> without type parameters, and \<^verbatim>\<open>expr.toStmt()\<close>.\<close>

abbreviation importExpr :: "Identifiers \<Rightarrow> 'n Expression" where
  "importExpr ident \<equiv> ExternalExpr ident None"

abbreviation toStmt :: "'n Expression \<Rightarrow> 'n Statement" where
  "toStmt expr \<equiv> ExpressionStatement expr"

section \<open>Data model of \<^verbatim>\<open>r3_module_compiler.ts\<close>\<close>

text \<open>\<^verbatim>\<open>R3SelectorScopeMode\<close>, lines 20-45.\<close>

datatype R3SelectorScopeMode = Inline | SideEffect | Omit

text \<open>
  \<^verbatim>\<open>R3Reference\<close>, declared in \<^verbatim>\<open>./util\<close>: the compiler reads its fields \<^verbatim>\<open>value\<close> and
  \<^verbatim>\<open>type\<close>, here \<open>ref_value\<close> and \<open>ref_type\<close>.
\<close>

record 'n R3Reference =
  ref_value :: "'n Expression"
  ref_type :: "'n Expression"

text \<open>
  \<^verbatim>\<open>R3NgModuleMetadata\<close>, lines 50-111. The fields \<^verbatim>\<open>type\<close>, \<^verbatim>\<open>imports\<close> and \<^verbatim>\<open>id\<close> are
  \<open>meta_type\<close>, \<open>meta_imports\<close> and \<open>meta_id\<close>; \<^verbatim>\<open>schemas\<close> and \<^verbatim>\<open>id\<close> may be \<^verbatim>\<open>null\<close>,
  which is \<open>None\<close>.
\<close>

record 'n R3NgModuleMetadata =
  meta_type :: "'n R3Reference"
  internalType :: "'n Expression"
  adjacentType :: "'n Expression"
  bootstrap :: "'n R3Reference list"
  declarations :: "'n R3Reference list"
  meta_imports :: "'n R3Reference list"
  exports :: "'n R3Reference list"
  selectorScopeMode :: R3SelectorScopeMode
  containsForwardDecls :: bool
  schemas :: "'n R3Reference list option"
  meta_id :: "'n Expression option"

text \<open>
  \<^verbatim>\<open>R3CompiledExpression\<close>, declared in \<^verbatim>\<open>./util\<close>: the compiler returns
  \<^verbatim>\<open>{expression, type, statements}\<close>; the field \<^verbatim>\<open>type\<close> is \<open>compiled_type\<close>.
\<close>

record 'n R3CompiledExpression =
  expression :: "'n Expression"
  compiled_type :: "'n Type"
  statements :: "'n Statement list"

text \<open>
  \<^verbatim>\<open>R3DeclareNgModuleFacade\<close>, declared in \<^verbatim>\<open>../compiler_facade_interface\<close>: the compiler
  reads \<^verbatim>\<open>type\<close> unconditionally and tests every other field against \<^verbatim>\<open>undefined\<close>, which
  is \<open>None\<close>. The fields hold opaque nodes.
\<close>

record 'n R3DeclareNgModuleFacade =
  decl_type :: 'n
  decl_bootstrap :: "'n option"
  decl_declarations :: "'n option"
  decl_imports :: "'n option"
  decl_exports :: "'n option"
  decl_schemas :: "'n option"
  decl_id :: "'n option"

section \<open>The helpers imported from \<^verbatim>\<open>./util\<close> and \<^verbatim>\<open>./view/util\<close>\<close>

text \<open>
  Modelled from the spec: the class \<^verbatim>\<open>DefinitionMap\<close> (file \<^verbatim>\<open>view/util\<close>) is missing. It is
  an insertion-ordered accumulator of key/value entries: \<^verbatim>\<open>set\<close> records an expression
  under a key, \<^verbatim>\<open>toLiteralMap\<close> produces the literal map of exactly the keys that were
  set, in the order they were set. The field \<^verbatim>\<open>values\<close> is \<open>dm_values\<close>.
\<close>

record 'n DefinitionMap =
  dm_values :: "(string \<times> 'n Expression) list"

definition new_DefinitionMap :: "'n DefinitionMap" where
  "new_DefinitionMap = \<lparr>dm_values = []\<rparr>"

definition DefinitionMap_set ::
    "string \<Rightarrow> 'n Expression \<Rightarrow> 'n DefinitionMap \<Rightarrow> 'n DefinitionMap" where
  "DefinitionMap_set key val m = m\<lparr>dm_values := dm_values m @ [(key, val)]\<rparr>"

definition toLiteralMap :: "'n DefinitionMap \<Rightarrow> 'n Expression" where
  "toLiteralMap m = LiteralMapExpr (dm_values m)"

text \<open>
  Modelled from the spec: the function \<^verbatim>\<open>refsToArray\<close> (file \<^verbatim>\<open>util\<close>) is missing. It
  produces the array literal of the references' value-expressions, in input order; when
  forward declarations are present the array literal is instead wrapped in a
  zero-argument closure that returns the array.
\<close>

definition refsToArray :: "'n R3Reference list \<Rightarrow> bool \<Rightarrow> 'n Expression" where
  "refsToArray refs shouldForwardDeclare =
     (let vals = LiteralArrayExpr (map ref_value refs)
      in if shouldForwardDeclare then FunctionExpr [] [ReturnStatement vals] else vals)"

text \<open>
  Modelled from the spec: the function \<^verbatim>\<open>jitOnlyGuardedExpression\<close> (file \<^verbatim>\<open>util\<close>) is
  missing. It wraps a call in a boolean short-circuit guard keyed on the runtime
  development-mode flag \<^verbatim>\<open>ngJitMode\<close>: \<^verbatim>\<open>(ngJitMode guard) && call\<close>.
\<close>

definition jitOnlyGuardedExpression :: "'n Expression \<Rightarrow> 'n Expression" where
  "jitOnlyGuardedExpression expr = BinaryOperatorExpr And (ReadVarExpr ''ngJitMode'') expr"

section \<open>The compiler functions\<close>

text \<open>\<^verbatim>\<open>tupleTypeOf\<close>, lines 307-310.\<close>

definition tupleTypeOf :: "'n R3Reference list \<Rightarrow> 'n Type" where
  "tupleTypeOf exp =
     (let types = map (\<lambda>ref. TypeofExpr (ref_type ref)) exp
      in if length exp > 0 then ExpressionType (LiteralArrayExpr types) None else NONE_TYPE)"

text \<open>\<^verbatim>\<open>createNgModuleType\<close>, lines 250-256.\<close>

definition createNgModuleType :: "'n R3NgModuleMetadata \<Rightarrow> 'n Type" where
  "createNgModuleType meta =
     ExpressionType
       (ExternalExpr NgModuleDeclaration
          (Some [ExpressionType (ref_type (meta_type meta)) None,
                 tupleTypeOf (declarations meta),
                 tupleTypeOf (meta_imports meta),
                 tupleTypeOf (exports meta)]))
       None"

text \<open>
  \<^verbatim>\<open>generateSetNgModuleScopeCall\<close>, lines 264-305. The reference-lowering function it calls
  is imported from \<^verbatim>\<open>./util\<close>; it is the parameter \<open>lower\<close> here, and
  \<open>generateSetNgModuleScopeCall\<close> below supplies \<open>refsToArray\<close> for it. The result \<^verbatim>\<open>null\<close>
  is \<open>None\<close>.
\<close>

definition generateSetNgModuleScopeCallWith ::
    "('n R3Reference list \<Rightarrow> bool \<Rightarrow> 'n Expression) \<Rightarrow> 'n R3NgModuleMetadata
      \<Rightarrow> 'n Statement option" where
  "generateSetNgModuleScopeCallWith lower meta =
     (let moduleType = adjacentType meta;
          scopeMap = new_DefinitionMap;
          scopeMap =
            (if length (declarations meta) > 0
             then DefinitionMap_set ''declarations''
                    (lower (declarations meta) (containsForwardDecls meta)) scopeMap
             else scopeMap);
          scopeMap =
            (if length (meta_imports meta) > 0
             then DefinitionMap_set ''imports''
                    (lower (meta_imports meta) (containsForwardDecls meta)) scopeMap
             else scopeMap);
          scopeMap =
            (if length (exports meta) > 0
             then DefinitionMap_set ''exports''
                    (lower (exports meta) (containsForwardDecls meta)) scopeMap
             else scopeMap)
      in if length (dm_values scopeMap) = 0 then None
         else
           (let fnCall =
                  InvokeFunctionExpr (importExpr setNgModuleScope)
                    [moduleType, toLiteralMap scopeMap] False;
                guardedCall = jitOnlyGuardedExpression fnCall;
                iife = FunctionExpr [] [toStmt guardedCall];
                iifeCall = InvokeFunctionExpr iife [] False
            in Some (toStmt iifeCall)))"

definition generateSetNgModuleScopeCall :: "'n R3NgModuleMetadata \<Rightarrow> 'n Statement option" where
  "generateSetNgModuleScopeCall meta = generateSetNgModuleScopeCallWith refsToArray meta"

text \<open>
  \<^verbatim>\<open>compileNgModule\<close>, lines 153-220, with the reference-lowering function as the parameter
  \<open>lower\<close>. The two mutable locals \<^verbatim>\<open>definitionMap\<close> and \<^verbatim>\<open>statements\<close> are passed along
  explicitly.
\<close>

definition compileNgModuleWith ::
    "('n R3Reference list \<Rightarrow> bool \<Rightarrow> 'n Expression) \<Rightarrow> 'n R3NgModuleMetadata
      \<Rightarrow> 'n R3CompiledExpression" where
  "compileNgModuleWith lower meta =
     (let stmts = [];
          definitionMap = new_DefinitionMap;
          definitionMap = DefinitionMap_set ''type'' (internalType meta) definitionMap;
          definitionMap =
            (if length (bootstrap meta) > 0
             then DefinitionMap_set ''bootstrap''
                    (lower (bootstrap meta) (containsForwardDecls meta)) definitionMap
             else definitionMap);
          (definitionMap, stmts) =
            (if selectorScopeMode meta = Inline then
               (let definitionMap =
                      (if length (declarations meta) > 0
                       then DefinitionMap_set ''declarations''
                              (lower (declarations meta) (containsForwardDecls meta))
                              definitionMap
                       else definitionMap);
                    definitionMap =
                      (if length (meta_imports meta) > 0
                       then DefinitionMap_set ''imports''
                              (lower (meta_imports meta) (containsForwardDecls meta)) definitionMap
                       else definitionMap);
                    definitionMap =
                      (if length (exports meta) > 0
                       then DefinitionMap_set ''exports''
                              (lower (exports meta) (containsForwardDecls meta)) definitionMap
                       else definitionMap)
                in (definitionMap, stmts))
             else if selectorScopeMode meta = SideEffect then
               (case generateSetNgModuleScopeCallWith lower meta of
                  Some setNgModuleScopeCall \<Rightarrow> (definitionMap, stmts @ [setNgModuleScopeCall])
                | None \<Rightarrow> (definitionMap, stmts))
             else (definitionMap, stmts));
          definitionMap =
            (case schemas meta of
               Some schemas_list \<Rightarrow>
                 (if length schemas_list > 0
                  then DefinitionMap_set ''schemas''
                         (LiteralArrayExpr (map ref_value schemas_list)) definitionMap
                  else definitionMap)
             | None \<Rightarrow> definitionMap);
          (definitionMap, stmts) =
            (case meta_id meta of
               Some ident \<Rightarrow>
                 (DefinitionMap_set ''id'' ident definitionMap,
                  stmts @ [toStmt (InvokeFunctionExpr (importExpr registerNgModuleType)
                                     [adjacentType meta, ident] False)])
             | None \<Rightarrow> (definitionMap, stmts));
          expr = InvokeFunctionExpr (importExpr defineNgModule) [toLiteralMap definitionMap] True;
          ty = createNgModuleType meta
      in \<lparr>expression = expr, compiled_type = ty, statements = stmts\<rparr>)"

definition compileNgModule :: "'n R3NgModuleMetadata \<Rightarrow> 'n R3CompiledExpression" where
  "compileNgModule meta = compileNgModuleWith refsToArray meta"

text \<open>\<^verbatim>\<open>compileNgModuleDeclarationExpression\<close>, lines 226-248.\<close>

definition compileNgModuleDeclarationExpression ::
    "'n R3DeclareNgModuleFacade \<Rightarrow> 'n Expression" where
  "compileNgModuleDeclarationExpression meta =
     (let definitionMap = new_DefinitionMap;
          definitionMap = DefinitionMap_set ''type'' (WrappedNodeExpr (decl_type meta)) definitionMap;
          definitionMap =
            (case decl_bootstrap meta of
               Some v \<Rightarrow> DefinitionMap_set ''bootstrap'' (WrappedNodeExpr v) definitionMap
             | None \<Rightarrow> definitionMap);
          definitionMap =
            (case decl_declarations meta of
               Some v \<Rightarrow> DefinitionMap_set ''declarations'' (WrappedNodeExpr v) definitionMap
             | None \<Rightarrow> definitionMap);
          definitionMap =
            (case decl_imports meta of
               Some v \<Rightarrow> DefinitionMap_set ''imports'' (WrappedNodeExpr v) definitionMap
             | None \<Rightarrow> definitionMap);
          definitionMap =
            (case decl_exports meta of
               Some v \<Rightarrow> DefinitionMap_set ''exports'' (WrappedNodeExpr v) definitionMap
             | None \<Rightarrow> definitionMap);
          definitionMap =
            (case decl_schemas meta of
               Some v \<Rightarrow> DefinitionMap_set ''schemas'' (WrappedNodeExpr v) definitionMap
             | None \<Rightarrow> definitionMap);
          definitionMap =
            (case decl_id meta of
               Some v \<Rightarrow> DefinitionMap_set ''id'' (WrappedNodeExpr v) definitionMap
             | None \<Rightarrow> definitionMap)
      in InvokeFunctionExpr (importExpr defineNgModule) [toLiteralMap definitionMap] False)"

section \<open>The compiler functions with lowering calls that can fail\<close>

text \<open>
  To speak about the calls of the reference-lowering function, and not only about their
  results, the two functions that call it are embedded a second time with a lowering
  function that can fail (\<open>None\<close>). A failed call fails the function that makes it, as an
  exception thrown by the callee would; \<open>generateSetNgModuleScopeCallStrict\<close> therefore
  returns \<open>None\<close> for a failed call, \<open>Some None\<close> for \<^verbatim>\<open>null\<close> and \<open>Some (Some s)\<close> for a
  statement. The call sites, their order and their guards are those of lines 264-305 and
  153-220.
\<close>

definition generateSetNgModuleScopeCallStrict ::
    "('n R3Reference list \<Rightarrow> bool \<Rightarrow> 'n Expression option) \<Rightarrow> 'n R3NgModuleMetadata
      \<Rightarrow> 'n Statement option option" where
  "generateSetNgModuleScopeCallStrict lower meta =
     do {
       let moduleType = adjacentType meta;
       let scopeMap = new_DefinitionMap;
       scopeMap \<leftarrow>
         (if length (declarations meta) > 0
          then do {
                 arr \<leftarrow> lower (declarations meta) (containsForwardDecls meta);
                 Some (DefinitionMap_set ''declarations'' arr scopeMap)
               }
          else Some scopeMap);
       scopeMap \<leftarrow>
         (if length (meta_imports meta) > 0
          then do {
                 arr \<leftarrow> lower (meta_imports meta) (containsForwardDecls meta);
                 Some (DefinitionMap_set ''imports'' arr scopeMap)
               }
          else Some scopeMap);
       scopeMap \<leftarrow>
         (if length (exports meta) > 0
          then do {
                 arr \<leftarrow> lower (exports meta) (containsForwardDecls meta);
                 Some (DefinitionMap_set ''exports'' arr scopeMap)
               }
          else Some scopeMap);
       if length (dm_values scopeMap) = 0 then Some None
       else
         (let fnCall =
                InvokeFunctionExpr (importExpr setNgModuleScope)
                  [moduleType, toLiteralMap scopeMap] False;
              guardedCall = jitOnlyGuardedExpression fnCall;
              iife = FunctionExpr [] [toStmt guardedCall];
              iifeCall = InvokeFunctionExpr iife [] False
          in Some (Some (toStmt iifeCall)))
     }"

definition compileNgModuleStrict ::
    "('n R3Reference list \<Rightarrow> bool \<Rightarrow> 'n Expression option) \<Rightarrow> 'n R3NgModuleMetadata
      \<Rightarrow> 'n R3CompiledExpression option" where
  "compileNgModuleStrict lower meta =
     do {
       let stmts = [];
       let definitionMap = new_DefinitionMap;
       let definitionMap = DefinitionMap_set ''type'' (internalType meta) definitionMap;
       definitionMap \<leftarrow>
         (if length (bootstrap meta) > 0
          then do {
                 arr \<leftarrow> lower (bootstrap meta) (containsForwardDecls meta);
                 Some (DefinitionMap_set ''bootstrap'' arr definitionMap)
               }
          else Some definitionMap);
       (definitionMap, stmts) \<leftarrow>
         (if selectorScopeMode meta = Inline then
            do {
              definitionMap \<leftarrow>
                (if length (declarations meta) > 0
                 then do {
                        arr \<leftarrow> lower (declarations meta) (containsForwardDecls meta);
                        Some (DefinitionMap_set ''declarations'' arr definitionMap)
                      }
                 else Some definitionMap);
              definitionMap \<leftarrow>
                (if length (meta_imports meta) > 0
                 then do {
                        arr \<leftarrow> lower (meta_imports meta) (containsForwardDecls meta);
                        Some (DefinitionMap_set ''imports'' arr definitionMap)
                      }
                 else Some definitionMap);
              definitionMap \<leftarrow>
                (if length (exports meta) > 0
                 then do {
                        arr \<leftarrow> lower (exports meta) (containsForwardDecls meta);
                        Some (DefinitionMap_set ''exports'' arr definitionMap)
                      }
                 else Some definitionMap);
              Some (definitionMap, stmts)
            }
          else if selectorScopeMode meta = SideEffect then
            do {
              setNgModuleScopeCall \<leftarrow> generateSetNgModuleScopeCallStrict lower meta;
              Some (case setNgModuleScopeCall of
                      Some s \<Rightarrow> (definitionMap, stmts @ [s])
                    | None \<Rightarrow> (definitionMap, stmts))
            }
          else Some (definitionMap, stmts));
       let definitionMap =
         (case schemas meta of
            Some schemas_list \<Rightarrow>
              (if length schemas_list > 0
               then DefinitionMap_set ''schemas''
                      (LiteralArrayExpr (map ref_value schemas_list)) definitionMap
               else definitionMap)
          | None \<Rightarrow> definitionMap);
       let (definitionMap, stmts) =
         (case meta_id meta of
            Some ident \<Rightarrow>
              (DefinitionMap_set ''id'' ident definitionMap,
               stmts @ [toStmt (InvokeFunctionExpr (importExpr registerNgModuleType)
                                  [adjacentType meta, ident] False)])
          | None \<Rightarrow> (definitionMap, stmts));
       let expr = InvokeFunctionExpr (importExpr defineNgModule) [toLiteralMap definitionMap] True;
       let ty = createNgModuleType meta;
       Some \<lparr>expression = expr, compiled_type = ty, statements = stmts\<rparr>
     }"

text \<open>
  A lowering function with the precondition of spec section 7 checked: a call on an empty
  sequence fails, a call on a non-empty sequence returns what \<open>lower\<close> returns.
\<close>

definition requireNonEmpty ::
    "('n R3Reference list \<Rightarrow> bool \<Rightarrow> 'n Expression) \<Rightarrow> 'n R3Reference list \<Rightarrow> bool
      \<Rightarrow> 'n Expression option" where
  "requireNonEmpty lower refs fwd = (if length refs > 0 then Some (lower refs fwd) else None)"

section \<open>Observing the output\<close>

text \<open>
  The entries of the literal map that a definition call receives as its sole argument:
  the main definition map of \<open>compileNgModule\<close> and of
  \<open>compileNgModuleDeclarationExpression\<close>.
\<close>

definition definitionMapOf :: "'n Expression \<Rightarrow> (string \<times> 'n Expression) list" where
  "definitionMapOf e =
     (case e of InvokeFunctionExpr fn [LiteralMapExpr entries] pure \<Rightarrow> entries | _ \<Rightarrow> [])"

abbreviation mainMap :: "'n R3NgModuleMetadata \<Rightarrow> (string \<times> 'n Expression) list" where
  "mainMap meta \<equiv> definitionMapOf (expression (compileNgModule meta))"

text \<open>
  A scope-registration statement is a statement of the shape that
  \<open>generateSetNgModuleScopeCall\<close> builds: an immediately-invoked zero-argument function
  whose body is the single statement \<^verbatim>\<open>guard && setNgModuleScope(...)\<close>.
\<close>

definition isScopeRegistration :: "'n Statement \<Rightarrow> bool" where
  "isScopeRegistration s =
     (case s of
        ExpressionStatement
          (InvokeFunctionExpr
             (FunctionExpr []
                [ExpressionStatement
                   (BinaryOperatorExpr And guard
                      (InvokeFunctionExpr (ExternalExpr setNgModuleScope tps) args p))])
             [] pure) \<Rightarrow> True
      | _ \<Rightarrow> False)"

text \<open>
  An id-registration statement is a statement that directly calls
  \<^verbatim>\<open>registerNgModuleType\<close>, as line 212 builds it.
\<close>

definition isIdRegistration :: "'n Statement \<Rightarrow> bool" where
  "isIdRegistration s =
     (case s of
        ExpressionStatement (InvokeFunctionExpr (ExternalExpr registerNgModuleType tps) args p)
          \<Rightarrow> True
      | _ \<Rightarrow> False)"

section \<open>Sample inputs\<close>

definition refA :: "nat R3Reference" where
  "refA = \<lparr>ref_value = WrappedNodeExpr 1, ref_type = WrappedNodeExpr 11\<rparr>"

definition refB :: "nat R3Reference" where
  "refB = \<lparr>ref_value = WrappedNodeExpr 2, ref_type = WrappedNodeExpr 12\<rparr>"

text \<open>A module with no bootstrap, scope, schemas or id, in mode \<^verbatim>\<open>Omit\<close>.\<close>

definition bareMeta :: "nat R3NgModuleMetadata" where
  "bareMeta =
     \<lparr>meta_type = \<lparr>ref_value = WrappedNodeExpr 0, ref_type = WrappedNodeExpr 10\<rparr>,
      internalType = WrappedNodeExpr 20,
      adjacentType = WrappedNodeExpr 30,
      bootstrap = [],
      declarations = [],
      meta_imports = [],
      exports = [],
      selectorScopeMode = Omit,
      containsForwardDecls = False,
      schemas = None,
      meta_id = None\<rparr>"

text \<open>Side-effect scope with the single declaration \<open>refA\<close>.\<close>

definition sideEffectMeta :: "nat R3NgModuleMetadata" where
  "sideEffectMeta = bareMeta\<lparr>selectorScopeMode := SideEffect, declarations := [refA]\<rparr>"

text \<open>Inline scope with declarations and exports, and no imports.\<close>

definition inlineMeta :: "nat R3NgModuleMetadata" where
  "inlineMeta =
     bareMeta\<lparr>selectorScopeMode := Inline, declarations := [refA, refB], exports := [refB]\<rparr>"

text \<open>Inline scope with forward declarations; all four sequences and the schemas are non-empty.\<close>

definition forwardMeta :: "nat R3NgModuleMetadata" where
  "forwardMeta =
     bareMeta\<lparr>selectorScopeMode := Inline, containsForwardDecls := True,
       bootstrap := [refB], declarations := [refA, refB], meta_imports := [refB, refA],
       exports := [refA], schemas := Some [refB]\<rparr>"

text \<open>Side-effect scope with an id.\<close>

definition registeredMeta :: "nat R3NgModuleMetadata" where
  "registeredMeta =
     bareMeta\<lparr>selectorScopeMode := SideEffect, declarations := [refA], exports := [refB],
       meta_id := Some (WrappedNodeExpr 40)\<rparr>"

text \<open>
  A declaration whose \<^verbatim>\<open>bootstrap\<close> is present and empty, and whose \<^verbatim>\<open>imports\<close> is
  present; the opaque nodes are lists of numbers.
\<close>

definition emptyBootstrapDecl :: "nat list R3DeclareNgModuleFacade" where
  "emptyBootstrapDecl =
     \<lparr>decl_type = [0], decl_bootstrap = Some [], decl_declarations = None,
      decl_imports = Some [1, 2], decl_exports = None, decl_schemas = None, decl_id = None\<rparr>"

section \<open>Closed forms of the compiler functions\<close>

lemmas dm_defs = new_DefinitionMap_def DefinitionMap_set_def toLiteralMap_def

lemma generateSetNgModuleScopeCallWith_eq:
  "generateSetNgModuleScopeCallWith lower meta =
     (let entries =
            [(k, lower refs (containsForwardDecls meta)).
               (k, refs) \<leftarrow> [(''declarations'', declarations meta),
                            (''imports'', meta_imports meta),
                            (''exports'', exports meta)],
               refs \<noteq> []]
      in if entries = [] then None
         else Some (toStmt (InvokeFunctionExpr
                 (FunctionExpr []
                    [toStmt (jitOnlyGuardedExpression
                       (InvokeFunctionExpr (importExpr setNgModuleScope)
                          [adjacentType meta, LiteralMapExpr entries] False))])
                 [] False)))"
  by (simp add: generateSetNgModuleScopeCallWith_def dm_defs Let_def)

lemma compileNgModuleWith_expression:
  "expression (compileNgModuleWith lower meta) =
     InvokeFunctionExpr (importExpr defineNgModule)
       [LiteralMapExpr
          ([(''type'', internalType meta)] @
           [(k, lower refs (containsForwardDecls meta)).
              (k, refs) \<leftarrow> [(''bootstrap'', bootstrap meta)], refs \<noteq> []] @
           (if selectorScopeMode meta = Inline
            then [(k, lower refs (containsForwardDecls meta)).
                    (k, refs) \<leftarrow> [(''declarations'', declarations meta),
                                 (''imports'', meta_imports meta),
                                 (''exports'', exports meta)],
                    refs \<noteq> []]
            else []) @
           (case schemas meta of
              Some ss \<Rightarrow> if ss \<noteq> [] then [(''schemas'', LiteralArrayExpr (map ref_value ss))] else []
            | None \<Rightarrow> []) @
           (case meta_id meta of Some i \<Rightarrow> [(''id'', i)] | None \<Rightarrow> []))]
       True"
  by (simp add: compileNgModuleWith_def dm_defs Let_def split: option.split prod.split)

lemma compileNgModuleWith_statements:
  "statements (compileNgModuleWith lower meta) =
     (if selectorScopeMode meta = SideEffect
      then (case generateSetNgModuleScopeCallWith lower meta of Some s \<Rightarrow> [s] | None \<Rightarrow> [])
      else []) @
     (case meta_id meta of
        Some i \<Rightarrow> [toStmt (InvokeFunctionExpr (importExpr registerNgModuleType)
                            [adjacentType meta, i] False)]
      | None \<Rightarrow> [])"
  by (simp add: compileNgModuleWith_def dm_defs Let_def split: option.split prod.split)

lemma mainMap_eq:
  "mainMap meta =
     [(''type'', internalType meta)] @
     [(k, refsToArray refs (containsForwardDecls meta)).
        (k, refs) \<leftarrow> [(''bootstrap'', bootstrap meta)], refs \<noteq> []] @
     (if selectorScopeMode meta = Inline
      then [(k, refsToArray refs (containsForwardDecls meta)).
              (k, refs) \<leftarrow> [(''declarations'', declarations meta),
                           (''imports'', meta_imports meta),
                           (''exports'', exports meta)],
              refs \<noteq> []]
      else []) @
     (case schemas meta of
        Some ss \<Rightarrow> if ss \<noteq> [] then [(''schemas'', LiteralArrayExpr (map ref_value ss))] else []
      | None \<Rightarrow> []) @
     (case meta_id meta of Some i \<Rightarrow> [(''id'', i)] | None \<Rightarrow> [])"
  unfolding compileNgModule_def compileNgModuleWith_expression definitionMapOf_def
  by simp

lemma expression_mainMap:
  "expression (compileNgModule meta) =
     InvokeFunctionExpr (importExpr defineNgModule) [LiteralMapExpr (mainMap meta)] True"
  unfolding compileNgModule_def compileNgModuleWith_expression definitionMapOf_def
  by simp

lemma statements_eq:
  "statements (compileNgModule meta) =
     (if selectorScopeMode meta = SideEffect
      then (case generateSetNgModuleScopeCall meta of Some s \<Rightarrow> [s] | None \<Rightarrow> [])
      else []) @
     (case meta_id meta of
        Some i \<Rightarrow> [toStmt (InvokeFunctionExpr (importExpr registerNgModuleType)
                            [adjacentType meta, i] False)]
      | None \<Rightarrow> [])"
  by (simp add: compileNgModule_def generateSetNgModuleScopeCall_def
      compileNgModuleWith_statements)

lemma isScopeRegistration_scope_stmt:
  "isScopeRegistration (toStmt (InvokeFunctionExpr
     (FunctionExpr []
        [toStmt (jitOnlyGuardedExpression
           (InvokeFunctionExpr (importExpr setNgModuleScope) args False))])
     [] False))"
  by (simp add: isScopeRegistration_def jitOnlyGuardedExpression_def)

lemma isScopeRegistration_id_stmt:
  "\<not> isScopeRegistration
        (toStmt (InvokeFunctionExpr (importExpr registerNgModuleType) args False))"
  by (simp add: isScopeRegistration_def)

lemma isIdRegistration_id_stmt:
  "isIdRegistration (toStmt (InvokeFunctionExpr (importExpr registerNgModuleType) args False))"
  by (simp add: isIdRegistration_def)

lemma isIdRegistration_iife:
  "\<not> isIdRegistration (toStmt (InvokeFunctionExpr (FunctionExpr ps body) args p))"
  by (simp add: isIdRegistration_def)

lemmas registration_simps =
  isScopeRegistration_scope_stmt isScopeRegistration_id_stmt
  isIdRegistration_id_stmt isIdRegistration_iife

lemma generateSetNgModuleScopeCall_eq:
  "generateSetNgModuleScopeCall meta =
     (let entries =
            [(k, refsToArray refs (containsForwardDecls meta)).
               (k, refs) \<leftarrow> [(''declarations'', declarations meta),
                            (''imports'', meta_imports meta),
                            (''exports'', exports meta)],
               refs \<noteq> []]
      in if entries = [] then None
         else Some (toStmt (InvokeFunctionExpr
                 (FunctionExpr []
                    [toStmt (jitOnlyGuardedExpression
                       (InvokeFunctionExpr (importExpr setNgModuleScope)
                          [adjacentType meta, LiteralMapExpr entries] False))])
                 [] False)))"
  unfolding generateSetNgModuleScopeCall_def by (rule generateSetNgModuleScopeCallWith_eq)

lemma generateSetNgModuleScopeCall_Some:
  assumes "generateSetNgModuleScopeCall meta = Some s"
  shows "isScopeRegistration s" and "\<not> isIdRegistration s"
  using assms
  by (auto simp: generateSetNgModuleScopeCall_eq Let_def registration_simps split: if_splits)

lemma filter_isScopeRegistration_statements:
  "filter isScopeRegistration (statements (compileNgModule meta)) =
     (if selectorScopeMode meta = SideEffect
      then (case generateSetNgModuleScopeCall meta of Some s \<Rightarrow> [s] | None \<Rightarrow> [])
      else [])"
  by (cases "selectorScopeMode meta = SideEffect";
      cases "generateSetNgModuleScopeCall meta"; cases "meta_id meta")
     (simp_all add: statements_eq registration_simps generateSetNgModuleScopeCall_Some)

lemma filter_isIdRegistration_statements:
  "filter isIdRegistration (statements (compileNgModule meta)) =
     (case meta_id meta of
        Some i \<Rightarrow> [toStmt (InvokeFunctionExpr (importExpr registerNgModuleType)
                            [adjacentType meta, i] False)]
      | None \<Rightarrow> [])"
  by (cases "selectorScopeMode meta = SideEffect";
      cases "generateSetNgModuleScopeCall meta"; cases "meta_id meta")
     (simp_all add: statements_eq registration_simps generateSetNgModuleScopeCall_Some)


lemmas sample_defs = bareMeta_def refA_def refB_def sideEffectMeta_def inlineMeta_def
  forwardMeta_def registeredMeta_def

section \<open>The claims\<close>

text \<open>
  Claim C1. In mode \<^verbatim>\<open>SideEffect\<close> the main definition map has none of the keys
  \<^verbatim>\<open>declarations\<close>, \<^verbatim>\<open>imports\<close>, \<^verbatim>\<open>exports\<close>. When at least one of the three sequences
  is non-empty, the statements contain exactly one scope-registration statement: the
  immediately-invoked zero-argument function whose body is the guarded call of
  \<^verbatim>\<open>setNgModuleScope\<close> with \<^verbatim>\<open>adjacentType\<close> and the scope map, and the scope map holds
  exactly the non-empty ones of the three sequences, lowered, in the order declarations,
  imports, exports. When all three are empty, there is no scope-registration statement.
\<close>

theorem compileNgModule_SideEffect_scope:
  assumes "selectorScopeMode meta = SideEffect"
  shows "map_of (mainMap meta) ''declarations'' = None \<and>
         map_of (mainMap meta) ''imports'' = None \<and>
         map_of (mainMap meta) ''exports'' = None \<and>
         filter isScopeRegistration (statements (compileNgModule meta)) =
           (if declarations meta = [] \<and> meta_imports meta = [] \<and> exports meta = [] then []
            else [toStmt (InvokeFunctionExpr
                    (FunctionExpr []
                       [toStmt (jitOnlyGuardedExpression
                          (InvokeFunctionExpr (importExpr setNgModuleScope)
                             [adjacentType meta,
                              LiteralMapExpr
                                [(k, refsToArray refs (containsForwardDecls meta)).
                                   (k, refs) \<leftarrow> [(''declarations'', declarations meta),
                                                (''imports'', meta_imports meta),
                                                (''exports'', exports meta)],
                                   refs \<noteq> []]]
                             False))])
                    [] False)])"
proof -
  have keys: "map_of (mainMap meta) ''declarations'' = None"
    "map_of (mainMap meta) ''imports'' = None"
    "map_of (mainMap meta) ''exports'' = None"
    using assms by (simp_all add: mainMap_eq split: option.split)
  have stmts: "filter isScopeRegistration (statements (compileNgModule meta)) =
     (case generateSetNgModuleScopeCall meta of Some s \<Rightarrow> [s] | None \<Rightarrow> [])"
    using assms by (simp add: filter_isScopeRegistration_statements)
  show ?thesis
    using keys stmts by (simp add: generateSetNgModuleScopeCall_eq Let_def)
qed

theorem compileNgModule_SideEffect_scope_witness:
  "map_of (mainMap sideEffectMeta) ''declarations'' = None \<and>
   map_of (mainMap sideEffectMeta) ''imports'' = None \<and>
   map_of (mainMap sideEffectMeta) ''exports'' = None \<and>
   filter isScopeRegistration (statements (compileNgModule sideEffectMeta)) =
     [toStmt (InvokeFunctionExpr
        (FunctionExpr []
           [toStmt (BinaryOperatorExpr And (ReadVarExpr ''ngJitMode'')
              (InvokeFunctionExpr (importExpr setNgModuleScope)
                 [WrappedNodeExpr 30,
                  LiteralMapExpr [(''declarations'', LiteralArrayExpr [WrappedNodeExpr 1])]]
                 False))])
        [] False)]"
  using compileNgModule_SideEffect_scope [of sideEffectMeta]
  by (simp add: sample_defs refsToArray_def jitOnlyGuardedExpression_def)

text \<open>
  Claim C2. In mode \<^verbatim>\<open>Inline\<close> each of the keys \<^verbatim>\<open>declarations\<close>, \<^verbatim>\<open>imports\<close>,
  \<^verbatim>\<open>exports\<close> is set on the main definition map exactly when its sequence is non-empty,
  to the sequence lowered with \<^verbatim>\<open>containsForwardDecls\<close>, and the statements contain no
  scope-registration statement.
\<close>

theorem compileNgModule_Inline_scope:
  assumes "selectorScopeMode meta = Inline"
  shows "map_of (mainMap meta) ''declarations'' =
           (if declarations meta \<noteq> []
            then Some (refsToArray (declarations meta) (containsForwardDecls meta)) else None) \<and>
         map_of (mainMap meta) ''imports'' =
           (if meta_imports meta \<noteq> []
            then Some (refsToArray (meta_imports meta) (containsForwardDecls meta)) else None) \<and>
         map_of (mainMap meta) ''exports'' =
           (if exports meta \<noteq> []
            then Some (refsToArray (exports meta) (containsForwardDecls meta)) else None) \<and>
         filter isScopeRegistration (statements (compileNgModule meta)) = []"
proof -
  have keys: "map_of (mainMap meta) ''declarations'' =
           (if declarations meta \<noteq> []
            then Some (refsToArray (declarations meta) (containsForwardDecls meta)) else None)"
    "map_of (mainMap meta) ''imports'' =
           (if meta_imports meta \<noteq> []
            then Some (refsToArray (meta_imports meta) (containsForwardDecls meta)) else None)"
    "map_of (mainMap meta) ''exports'' =
           (if exports meta \<noteq> []
            then Some (refsToArray (exports meta) (containsForwardDecls meta)) else None)"
    using assms by (simp_all add: mainMap_eq split: option.split)
  have "filter isScopeRegistration (statements (compileNgModule meta)) = []"
    using assms by (simp add: filter_isScopeRegistration_statements)
  with keys show ?thesis by simp
qed

theorem compileNgModule_Inline_scope_witness:
  "map_of (mainMap inlineMeta) ''declarations'' =
     Some (LiteralArrayExpr [WrappedNodeExpr 1, WrappedNodeExpr 2]) \<and>
   map_of (mainMap inlineMeta) ''imports'' = None \<and>
   map_of (mainMap inlineMeta) ''exports'' = Some (LiteralArrayExpr [WrappedNodeExpr 2]) \<and>
   filter isScopeRegistration (statements (compileNgModule inlineMeta)) = []"
  using compileNgModule_Inline_scope [of inlineMeta]
  by (simp add: sample_defs refsToArray_def)

text \<open>
  Claim C3. Lowering a reference sequence gives, with forward declarations, a
  zero-argument function whose body returns the array of the references'
  value-expressions in input order, and without them that array itself; and every
  non-empty sequence among bootstrap, declarations, imports and exports that
  \<open>compileNgModule\<close> or \<open>generateSetNgModuleScopeCall\<close> emits is emitted as this lowering,
  with the metadata's \<^verbatim>\<open>containsForwardDecls\<close>.
\<close>

theorem refsToArray_lowering:
  "refsToArray refs True = FunctionExpr [] [ReturnStatement (LiteralArrayExpr (map ref_value refs))] \<and>
   refsToArray refs False = LiteralArrayExpr (map ref_value refs) \<and>
   (bootstrap meta \<noteq> [] \<longrightarrow>
      map_of (mainMap meta) ''bootstrap'' =
        Some (refsToArray (bootstrap meta) (containsForwardDecls meta))) \<and>
   (selectorScopeMode meta = Inline \<and> declarations meta \<noteq> [] \<longrightarrow>
      map_of (mainMap meta) ''declarations'' =
        Some (refsToArray (declarations meta) (containsForwardDecls meta))) \<and>
   (selectorScopeMode meta = Inline \<and> meta_imports meta \<noteq> [] \<longrightarrow>
      map_of (mainMap meta) ''imports'' =
        Some (refsToArray (meta_imports meta) (containsForwardDecls meta))) \<and>
   (selectorScopeMode meta = Inline \<and> exports meta \<noteq> [] \<longrightarrow>
      map_of (mainMap meta) ''exports'' =
        Some (refsToArray (exports meta) (containsForwardDecls meta))) \<and>
   generateSetNgModuleScopeCall meta =
     (if declarations meta = [] \<and> meta_imports meta = [] \<and> exports meta = [] then None
      else Some (toStmt (InvokeFunctionExpr
              (FunctionExpr []
                 [toStmt (jitOnlyGuardedExpression
                    (InvokeFunctionExpr (importExpr setNgModuleScope)
                       [adjacentType meta,
                        LiteralMapExpr
                          [(k, refsToArray refs (containsForwardDecls meta)).
                             (k, refs) \<leftarrow> [(''declarations'', declarations meta),
                                          (''imports'', meta_imports meta),
                                          (''exports'', exports meta)],
                             refs \<noteq> []]]
                       False))])
              [] False)))"
proof -
  have lower: "refsToArray refs True =
      FunctionExpr [] [ReturnStatement (LiteralArrayExpr (map ref_value refs))]"
    "refsToArray refs False = LiteralArrayExpr (map ref_value refs)"
    by (simp_all add: refsToArray_def)
  have boot: "bootstrap meta \<noteq> [] \<longrightarrow>
      map_of (mainMap meta) ''bootstrap'' =
        Some (refsToArray (bootstrap meta) (containsForwardDecls meta))"
    by (simp add: mainMap_eq)
  have inline: "selectorScopeMode meta = Inline \<and> declarations meta \<noteq> [] \<longrightarrow>
      map_of (mainMap meta) ''declarations'' =
        Some (refsToArray (declarations meta) (containsForwardDecls meta))"
    "selectorScopeMode meta = Inline \<and> meta_imports meta \<noteq> [] \<longrightarrow>
      map_of (mainMap meta) ''imports'' =
        Some (refsToArray (meta_imports meta) (containsForwardDecls meta))"
    "selectorScopeMode meta = Inline \<and> exports meta \<noteq> [] \<longrightarrow>
      map_of (mainMap meta) ''exports'' =
        Some (refsToArray (exports meta) (containsForwardDecls meta))"
    by (simp_all add: mainMap_eq split: option.split)
  show ?thesis
    using lower boot inline by (simp add: generateSetNgModuleScopeCall_eq Let_def)
qed

theorem refsToArray_lowering_witness:
  "map_of (mainMap forwardMeta) ''bootstrap'' =
     Some (FunctionExpr [] [ReturnStatement (LiteralArrayExpr [WrappedNodeExpr 2])]) \<and>
   map_of (mainMap forwardMeta) ''declarations'' =
     Some (FunctionExpr []
             [ReturnStatement (LiteralArrayExpr [WrappedNodeExpr 1, WrappedNodeExpr 2])]) \<and>
   map_of (mainMap forwardMeta) ''imports'' =
     Some (FunctionExpr []
             [ReturnStatement (LiteralArrayExpr [WrappedNodeExpr 2, WrappedNodeExpr 1])]) \<and>
   map_of (mainMap forwardMeta) ''exports'' =
     Some (FunctionExpr [] [ReturnStatement (LiteralArrayExpr [WrappedNodeExpr 1])]) \<and>
   refsToArray [refB, refA] False = LiteralArrayExpr [WrappedNodeExpr 2, WrappedNodeExpr 1]"
  using refsToArray_lowering [where refs = "[refB, refA]" and meta = forwardMeta]
  by (simp add: sample_defs refsToArray_def)

text \<open>
  Claim C4. When \<^verbatim>\<open>id\<close> is present, the main definition map has the key \<^verbatim>\<open>id\<close> with
  that expression, and the statements contain exactly one id-registration statement, the
  unguarded call of \<^verbatim>\<open>registerNgModuleType\<close> with \<^verbatim>\<open>adjacentType\<close> and the id, appended
  last. When \<^verbatim>\<open>id\<close> is absent, the key is not set and there is no id-registration
  statement.
\<close>

theorem compileNgModule_id_registration:
  "(case meta_id meta of
      Some i \<Rightarrow>
        map_of (mainMap meta) ''id'' = Some i \<and>
        filter isIdRegistration (statements (compileNgModule meta)) =
          [toStmt (InvokeFunctionExpr (importExpr registerNgModuleType)
                     [adjacentType meta, i] False)] \<and>
        last (statements (compileNgModule meta)) =
          toStmt (InvokeFunctionExpr (importExpr registerNgModuleType)
                    [adjacentType meta, i] False)
    | None \<Rightarrow>
        map_of (mainMap meta) ''id'' = None \<and>
        filter isIdRegistration (statements (compileNgModule meta)) = [])"
proof (cases "meta_id meta")
  case None
  have "map_of (mainMap meta) ''id'' = None"
    using None by (simp add: mainMap_eq split: option.split)
  then show ?thesis
    using None by (simp add: filter_isIdRegistration_statements)
next
  case (Some i)
  have "map_of (mainMap meta) ''id'' = Some i"
    using Some by (simp add: mainMap_eq split: option.split)
  moreover have "last (statements (compileNgModule meta)) =
      toStmt (InvokeFunctionExpr (importExpr registerNgModuleType) [adjacentType meta, i] False)"
    using Some by (simp add: statements_eq)
  ultimately show ?thesis
    using Some by (simp add: filter_isIdRegistration_statements)
qed

theorem compileNgModule_id_registration_witness:
  "map_of (mainMap registeredMeta) ''id'' = Some (WrappedNodeExpr 40) \<and>
   filter isIdRegistration (statements (compileNgModule registeredMeta)) =
     [toStmt (InvokeFunctionExpr (importExpr registerNgModuleType)
                [WrappedNodeExpr 30, WrappedNodeExpr 40] False)] \<and>
   map_of (mainMap sideEffectMeta) ''id'' = None \<and>
   filter isIdRegistration (statements (compileNgModule sideEffectMeta)) = []"
  using compileNgModule_id_registration [of registeredMeta]
    compileNgModule_id_registration [of sideEffectMeta]
  by (simp add: sample_defs)

text \<open>
  Claim C5. \<open>createNgModuleType\<close> is the module-declaration type with exactly four type
  arguments: the type expression of the module's own reference and the tuple types of
  declarations, imports and exports. \<open>tupleTypeOf\<close> is \<open>NONE_TYPE\<close> on the empty sequence
  and otherwise the array of \<^verbatim>\<open>typeof\<close> of each reference's type expression. Changing
  bootstrap and schemas does not change the type.
\<close>

theorem createNgModuleType_shape:
  "createNgModuleType meta =
     ExpressionType
       (ExternalExpr NgModuleDeclaration
          (Some [ExpressionType (ref_type (meta_type meta)) None,
                 tupleTypeOf (declarations meta),
                 tupleTypeOf (meta_imports meta),
                 tupleTypeOf (exports meta)]))
       None \<and>
   tupleTypeOf [] = (NONE_TYPE :: 'n Type) \<and>
   tupleTypeOf (r # rs) =
     ExpressionType (LiteralArrayExpr (map (\<lambda>ref. TypeofExpr (ref_type ref)) (r # rs))) None \<and>
   createNgModuleType (meta\<lparr>bootstrap := b, schemas := s\<rparr>) = createNgModuleType meta"
  by (simp add: createNgModuleType_def tupleTypeOf_def)

theorem createNgModuleType_shape_witness:
  "createNgModuleType forwardMeta =
     ExpressionType
       (ExternalExpr NgModuleDeclaration
          (Some [ExpressionType (WrappedNodeExpr 10) None,
                 ExpressionType
                   (LiteralArrayExpr [TypeofExpr (WrappedNodeExpr 11),
                                      TypeofExpr (WrappedNodeExpr 12)]) None,
                 ExpressionType
                   (LiteralArrayExpr [TypeofExpr (WrappedNodeExpr 12),
                                      TypeofExpr (WrappedNodeExpr 11)]) None,
                 ExpressionType (LiteralArrayExpr [TypeofExpr (WrappedNodeExpr 11)]) None]))
       None \<and>
   createNgModuleType sideEffectMeta =
     ExpressionType
       (ExternalExpr NgModuleDeclaration
          (Some [ExpressionType (WrappedNodeExpr 10) None,
                 ExpressionType (LiteralArrayExpr [TypeofExpr (WrappedNodeExpr 11)]) None,
                 NONE_TYPE, NONE_TYPE]))
       None \<and>
   createNgModuleType (forwardMeta\<lparr>bootstrap := [], schemas := None\<rparr>) =
     createNgModuleType forwardMeta"
  using createNgModuleType_shape
      [where meta = forwardMeta and r = refA and rs = "[refB]" and b = "[]" and s = None]
    createNgModuleType_shape
      [where meta = sideEffectMeta and r = refA and rs = "[]" and b = "[]" and s = None]
    createNgModuleType_shape
      [where meta = forwardMeta and r = refB and rs = "[refA]" and b = "[]" and s = None]
  by (simp add: sample_defs tupleTypeOf_def)

text \<open>
  Claim C6. \<open>compileNgModuleDeclarationExpression\<close> returns only the definition call;
  its literal map holds \<^verbatim>\<open>type\<close> first and then, in the order bootstrap, declarations,
  imports, exports, schemas, id, every field that is present, each wrapped as an opaque
  node. With only \<^verbatim>\<open>type\<close> and \<^verbatim>\<open>imports\<close> present the map has exactly the two keys
  \<^verbatim>\<open>type\<close> and \<^verbatim>\<open>imports\<close>, in that order.
\<close>

theorem compileNgModuleDeclarationExpression_presence:
  "compileNgModuleDeclarationExpression meta =
     InvokeFunctionExpr (importExpr defineNgModule)
       [LiteralMapExpr
          ((''type'', WrappedNodeExpr (decl_type meta)) #
           [(k, WrappedNodeExpr v).
              (k, Some v) \<leftarrow> [(''bootstrap'', decl_bootstrap meta),
                              (''declarations'', decl_declarations meta),
                              (''imports'', decl_imports meta),
                              (''exports'', decl_exports meta),
                              (''schemas'', decl_schemas meta),
                              (''id'', decl_id meta)]])]
       False \<and>
   definitionMapOf (compileNgModuleDeclarationExpression
      \<lparr>decl_type = t, decl_bootstrap = None, decl_declarations = None, decl_imports = Some v,
       decl_exports = None, decl_schemas = None, decl_id = None\<rparr>) =
     [(''type'', WrappedNodeExpr t), (''imports'', WrappedNodeExpr v)]"
  by (simp add: compileNgModuleDeclarationExpression_def dm_defs definitionMapOf_def
      split: option.split)

theorem compileNgModuleDeclarationExpression_presence_witness:
  "compileNgModuleDeclarationExpression emptyBootstrapDecl =
     InvokeFunctionExpr (importExpr defineNgModule)
       [LiteralMapExpr
          [(''type'', WrappedNodeExpr [0]),
           (''bootstrap'', WrappedNodeExpr []),
           (''imports'', WrappedNodeExpr [1, 2])]]
       False"
  using compileNgModuleDeclarationExpression_presence
      [where meta = emptyBootstrapDecl and t = "[0::nat]" and v = "[1, 2::nat]"]
  by (simp add: emptyBootstrapDecl_def)

text \<open>
  Claim C7. The key \<^verbatim>\<open>schemas\<close> is set on the main definition map exactly when
  \<^verbatim>\<open>schemas\<close> is present and non-empty, and its value is the array literal of the schema
  references' value-expressions, whatever \<^verbatim>\<open>containsForwardDecls\<close> is.
\<close>

theorem compileNgModule_schemas:
  "map_of (mainMap meta) ''schemas'' =
     (case schemas meta of
        Some ss \<Rightarrow> if ss \<noteq> [] then Some (LiteralArrayExpr (map ref_value ss)) else None
      | None \<Rightarrow> None)"
  by (simp add: mainMap_eq split: option.split)

theorem compileNgModule_schemas_witness:
  "map_of (mainMap forwardMeta) ''schemas'' = Some (LiteralArrayExpr [WrappedNodeExpr 2]) \<and>
   map_of (mainMap (forwardMeta\<lparr>schemas := Some []\<rparr>)) ''schemas'' = None \<and>
   map_of (mainMap (forwardMeta\<lparr>schemas := None\<rparr>)) ''schemas'' = None"
  using compileNgModule_schemas [of forwardMeta]
    compileNgModule_schemas [of "forwardMeta\<lparr>schemas := Some []\<rparr>"]
    compileNgModule_schemas [of "forwardMeta\<lparr>schemas := None\<rparr>"]
  by (simp add: sample_defs)

text \<open>
  Claim C8. The expression of \<open>compileNgModule\<close> is the pure call of \<^verbatim>\<open>defineNgModule\<close>
  on the main definition map; the first entry of that map is \<^verbatim>\<open>type\<close> with
  \<^verbatim>\<open>internalType\<close>; the key \<^verbatim>\<open>bootstrap\<close> is set exactly when \<^verbatim>\<open>bootstrap\<close> is non-empty,
  to the lowered sequence.
\<close>

theorem compileNgModule_type_bootstrap:
  "expression (compileNgModule meta) =
     InvokeFunctionExpr (importExpr defineNgModule) [LiteralMapExpr (mainMap meta)] True \<and>
   take 1 (mainMap meta) = [(''type'', internalType meta)] \<and>
   map_of (mainMap meta) ''type'' = Some (internalType meta) \<and>
   map_of (mainMap meta) ''bootstrap'' =
     (if bootstrap meta \<noteq> []
      then Some (refsToArray (bootstrap meta) (containsForwardDecls meta)) else None)"
proof -
  have "take 1 (mainMap meta) = [(''type'', internalType meta)]"
    by (simp add: mainMap_eq)
  moreover have "map_of (mainMap meta) ''type'' = Some (internalType meta)"
    by (simp add: mainMap_eq)
  moreover have "map_of (mainMap meta) ''bootstrap'' =
     (if bootstrap meta \<noteq> []
      then Some (refsToArray (bootstrap meta) (containsForwardDecls meta)) else None)"
    by (simp add: mainMap_eq split: option.split)
  ultimately show ?thesis
    using expression_mainMap [of meta] by simp
qed

theorem compileNgModule_type_bootstrap_witness:
  "expression (compileNgModule sideEffectMeta) =
     InvokeFunctionExpr (importExpr defineNgModule)
       [LiteralMapExpr (mainMap sideEffectMeta)] True \<and>
   take 1 (mainMap sideEffectMeta) = [(''type'', WrappedNodeExpr 20)] \<and>
   map_of (mainMap sideEffectMeta) ''bootstrap'' = None \<and>
   map_of (mainMap forwardMeta) ''bootstrap'' =
     Some (FunctionExpr [] [ReturnStatement (LiteralArrayExpr [WrappedNodeExpr 2])])"
  using compileNgModule_type_bootstrap [of sideEffectMeta]
    compileNgModule_type_bootstrap [of forwardMeta]
  by (simp add: sample_defs refsToArray_def)

text \<open>
  Claim C9. No call of the reference-lowering function made by \<open>compileNgModule\<close> or
  \<open>generateSetNgModuleScopeCall\<close> receives an empty sequence: run with a lowering function
  that fails on the empty sequence, and with failed calls failing the caller, both
  functions return for every metadata, and they return what they return with the
  unchecked lowering function.
\<close>

theorem refsToArray_only_nonempty:
  "generateSetNgModuleScopeCallStrict (requireNonEmpty lower) meta =
     Some (generateSetNgModuleScopeCallWith lower meta) \<and>
   compileNgModuleStrict (requireNonEmpty lower) meta = Some (compileNgModuleWith lower meta)"
proof -
  have scope: "generateSetNgModuleScopeCallStrict (requireNonEmpty lower) meta =
      Some (generateSetNgModuleScopeCallWith lower meta)"
    by (simp add: generateSetNgModuleScopeCallStrict_def generateSetNgModuleScopeCallWith_def
        requireNonEmpty_def Let_def)
  have "compileNgModuleStrict (requireNonEmpty lower) meta = Some (compileNgModuleWith lower meta)"
    unfolding compileNgModuleStrict_def compileNgModuleWith_def scope
    by (simp add: requireNonEmpty_def Let_def split: option.split prod.split)
  with scope show ?thesis by simp
qed

theorem refsToArray_only_nonempty_witness:
  "requireNonEmpty refsToArray ([] :: nat R3Reference list) False = None \<and>
   generateSetNgModuleScopeCallStrict (requireNonEmpty refsToArray) sideEffectMeta =
     Some (generateSetNgModuleScopeCall sideEffectMeta) \<and>
   compileNgModuleStrict (requireNonEmpty refsToArray) sideEffectMeta =
     Some (compileNgModule sideEffectMeta) \<and>
   compileNgModuleStrict (requireNonEmpty refsToArray) bareMeta = Some (compileNgModule bareMeta) \<and>
   generateSetNgModuleScopeCallStrict (\<lambda>refs fwd. None) sideEffectMeta = None \<and>
   compileNgModuleStrict (\<lambda>refs fwd. None) sideEffectMeta = None"
proof -
  have fails: "requireNonEmpty refsToArray ([] :: nat R3Reference list) False = None"
    by (simp add: requireNonEmpty_def)
  have scope_fails: "generateSetNgModuleScopeCallStrict (\<lambda>refs fwd. None) sideEffectMeta = None"
    by (simp add: generateSetNgModuleScopeCallStrict_def sample_defs)
  have "compileNgModuleStrict (\<lambda>refs fwd. None) sideEffectMeta = None"
    unfolding compileNgModuleStrict_def scope_fails by (simp add: sample_defs)
  with fails scope_fails show ?thesis
    using refsToArray_only_nonempty [of refsToArray sideEffectMeta]
      refsToArray_only_nonempty [of refsToArray bareMeta]
    by (simp add: generateSetNgModuleScopeCall_def compileNgModule_def)
qed

text \<open>
  Claim C10. In mode \<^verbatim>\<open>SideEffect\<close>, with at least one of declarations, imports and
  exports non-empty and an id present, the statements are exactly two: the guarded
  scope-registration statement first and the id-registration statement second. For every
  metadata the statements are the scope-registration statements followed by the
  id-registration statements, so no id-registration statement stands before a
  scope-registration statement.
\<close>

theorem compileNgModule_statement_order:
  "(selectorScopeMode meta = SideEffect \<and>
    \<not> (declarations meta = [] \<and> meta_imports meta = [] \<and> exports meta = []) \<and>
    meta_id meta = Some i \<longrightarrow>
      statements (compileNgModule meta) =
        [toStmt (InvokeFunctionExpr
           (FunctionExpr []
              [toStmt (jitOnlyGuardedExpression
                 (InvokeFunctionExpr (importExpr setNgModuleScope)
                    [adjacentType meta,
                     LiteralMapExpr
                       [(k, refsToArray refs (containsForwardDecls meta)).
                          (k, refs) \<leftarrow> [(''declarations'', declarations meta),
                                       (''imports'', meta_imports meta),
                                       (''exports'', exports meta)],
                          refs \<noteq> []]]
                    False))])
           [] False),
         toStmt (InvokeFunctionExpr (importExpr registerNgModuleType)
                   [adjacentType meta, i] False)]) \<and>
   statements (compileNgModule meta) =
     filter isScopeRegistration (statements (compileNgModule meta)) @
     filter isIdRegistration (statements (compileNgModule meta)) \<and>
   (\<forall>m n. m < n \<and> n < length (statements (compileNgModule meta)) \<and>
      isIdRegistration (statements (compileNgModule meta) ! m) \<longrightarrow>
      \<not> isScopeRegistration (statements (compileNgModule meta) ! n))"
proof -
  let ?stmts = "statements (compileNgModule meta)"
  let ?scope = "case generateSetNgModuleScopeCall meta of Some s \<Rightarrow> [s] | None \<Rightarrow> []"
  let ?reg = "case meta_id meta of
        Some i \<Rightarrow> [toStmt (InvokeFunctionExpr (importExpr registerNgModuleType)
                            [adjacentType meta, i] False)]
      | None \<Rightarrow> []"
  have two: "selectorScopeMode meta = SideEffect \<and>
    \<not> (declarations meta = [] \<and> meta_imports meta = [] \<and> exports meta = []) \<and>
    meta_id meta = Some i \<longrightarrow>
      ?stmts =
        [toStmt (InvokeFunctionExpr
           (FunctionExpr []
              [toStmt (jitOnlyGuardedExpression
                 (InvokeFunctionExpr (importExpr setNgModuleScope)
                    [adjacentType meta,
                     LiteralMapExpr
                       [(k, refsToArray refs (containsForwardDecls meta)).
                          (k, refs) \<leftarrow> [(''declarations'', declarations meta),
                                       (''imports'', meta_imports meta),
                                       (''exports'', exports meta)],
                          refs \<noteq> []]]
                    False))])
           [] False),
         toStmt (InvokeFunctionExpr (importExpr registerNgModuleType)
                   [adjacentType meta, i] False)]"
    by (simp add: statements_eq generateSetNgModuleScopeCall_eq Let_def)
  have split: "?stmts = filter isScopeRegistration ?stmts @ filter isIdRegistration ?stmts"
    unfolding filter_isScopeRegistration_statements filter_isIdRegistration_statements
    by (rule statements_eq)
  have order: "\<not> isScopeRegistration (?stmts ! n)"
    if "m < n" "n < length ?stmts" "isIdRegistration (?stmts ! m)" for m n
    using that
    by (cases "selectorScopeMode meta = SideEffect";
        cases "generateSetNgModuleScopeCall meta"; cases "meta_id meta")
       (auto simp: statements_eq registration_simps less_Suc_eq nth_Cons')
  show ?thesis
    using two split order by blast
qed

theorem compileNgModule_statement_order_witness:
  "statements (compileNgModule registeredMeta) =
     [toStmt (InvokeFunctionExpr
        (FunctionExpr []
           [toStmt (BinaryOperatorExpr And (ReadVarExpr ''ngJitMode'')
              (InvokeFunctionExpr (importExpr setNgModuleScope)
                 [WrappedNodeExpr 30,
                  LiteralMapExpr
                    [(''declarations'', LiteralArrayExpr [WrappedNodeExpr 1]),
                     (''exports'', LiteralArrayExpr [WrappedNodeExpr 2])]]
                 False))])
        [] False),
      toStmt (InvokeFunctionExpr (importExpr registerNgModuleType)
                [WrappedNodeExpr 30, WrappedNodeExpr 40] False)] \<and>
   isScopeRegistration (statements (compileNgModule registeredMeta) ! 0) \<and>
   isIdRegistration (statements (compileNgModule registeredMeta) ! 1)"
proof -
  have stmts: "statements (compileNgModule registeredMeta) =
     [toStmt (InvokeFunctionExpr
        (FunctionExpr []
           [toStmt (BinaryOperatorExpr And (ReadVarExpr ''ngJitMode'')
              (InvokeFunctionExpr (importExpr setNgModuleScope)
                 [WrappedNodeExpr 30,
                  LiteralMapExpr
                    [(''declarations'', LiteralArrayExpr [WrappedNodeExpr 1]),
                     (''exports'', LiteralArrayExpr [WrappedNodeExpr 2])]]
                 False))])
        [] False),
      toStmt (InvokeFunctionExpr (importExpr registerNgModuleType)
                [WrappedNodeExpr 30, WrappedNodeExpr 40] False)]"
    using compileNgModule_statement_order [of registeredMeta "WrappedNodeExpr 40"]
    by (simp add: sample_defs refsToArray_def jitOnlyGuardedExpression_def)
  show ?thesis
    unfolding stmts by (simp add: isScopeRegistration_def isIdRegistration_def)
qed

end
